theory Spec2Isabelle
  imports Complex_Main "HOL-Library.Word"
begin

section \<open>The rate limiter of pkg/ddrv/rate.go\<close>

text \<open>
  The limiter is modelled sequentially: one call of \<open>Acquire\<close> or \<open>Release\<close> runs
  from start to end before the next one starts, so the two mutexes of the source have
  no counterpart here. The environment of a call is a clock (what \<open>time.Now\<close> reads)
  and a log of the calls of \<open>time.Sleep\<close>.
\<close>

subsection \<open>Time and durations\<close>

text \<open>
  A \<open>time.Time\<close> is an instant, counted in nanoseconds from the Unix epoch, on one time
  line (the monotonic reading that \<open>time.Now\<close> attaches is taken to agree with the wall
  clock). A \<open>time.Duration\<close> is an \<open>int64\<close> count of nanoseconds: the arithmetic of
  the source on durations wraps around, and \<open>Time.Sub\<close> saturates.
\<close>

type_synonym Time = int
type_synonym Duration = int

definition wrap64 :: "int \<Rightarrow> int" where
  "wrap64 x = (x + 2 ^ 63) mod 2 ^ 64 - 2 ^ 63"

definition minDuration :: Duration where
  "minDuration = - (2 ^ 63)"

definition maxDuration :: Duration where
  "maxDuration = 2 ^ 63 - 1"

definition Second :: Duration where
  "Second = 1000000000"

definition Millisecond :: Duration where
  "Millisecond = 1000000"

definition ExtraDelay :: Duration where
  "ExtraDelay = 250 * Millisecond"

text \<open>The zero \<open>time.Time\<close> is January 1 of year 1, 00:00:00 UTC.\<close>

definition zero_Time :: Time where
  "zero_Time = - 62135596800 * 1000000000"

definition time_After :: "Time \<Rightarrow> Time \<Rightarrow> bool" where
  "time_After t u = (u < t)"

definition time_Sub :: "Time \<Rightarrow> Time \<Rightarrow> Duration" where
  "time_Sub t u =
     (if t - u < minDuration then minDuration
      else if maxDuration < t - u then maxDuration
      else t - u)"

definition time_Add :: "Time \<Rightarrow> Duration \<Rightarrow> Time" where
  "time_Add t d = t + d"

definition time_Unix :: "int \<Rightarrow> int \<Rightarrow> Time" where
  "time_Unix sec nsec = sec * 1000000000 + nsec"

subsection \<open>strconv\<close>

text \<open>
  \<open>strconv.ParseUint(s, 10, 64)\<close> accepts a non-empty string of decimal digits whose
  value is below \<open>2^64\<close>; \<open>strconv.Atoi\<close> accepts one optional sign followed by a
  non-empty string of decimal digits, with a value that an \<open>int\<close> (64 bits) holds.
  Both return an error otherwise, which is \<open>None\<close> here.
\<close>

definition digit_val :: "char \<Rightarrow> nat option" where
  "digit_val c =
     (if (48::nat) \<le> of_char c \<and> of_char c \<le> (57::nat) then Some (of_char c - 48) else None)"

fun decimal_from :: "nat \<Rightarrow> string \<Rightarrow> nat option" where
  "decimal_from acc [] = Some acc"
| "decimal_from acc (c # cs) =
     (case digit_val c of None \<Rightarrow> None | Some d \<Rightarrow> decimal_from (acc * 10 + d) cs)"

definition decimal :: "string \<Rightarrow> nat option" where
  "decimal s = (if s = [] then None else decimal_from 0 s)"

definition ParseUint :: "string \<Rightarrow> 64 word option" where
  "ParseUint s =
     (case decimal s of
        None \<Rightarrow> None
      | Some n \<Rightarrow> if n < 2 ^ 64 then Some (word_of_nat n) else None)"

definition Atoi :: "string \<Rightarrow> int option" where
  "Atoi s =
     (case s of
        [] \<Rightarrow> None
      | c # cs \<Rightarrow>
          (case decimal (if c = CHR ''-'' \<or> c = CHR ''+'' then cs else s) of
             None \<Rightarrow> None
           | Some n \<Rightarrow>
               (if c = CHR ''-''
                then (if n \<le> 2 ^ 63 then Some (- int n) else None)
                else (if n < 2 ^ 63 then Some (int n) else None))))"

text \<open>
  \<open>float64\<close> and \<open>strconv.ParseFloat\<close> are not modelled: \<open>Release\<close> takes the
  floating-point operations it uses as a parameter, and every theorem holds for any
  such operations.
\<close>

record 'f float64_ops =
  ParseFloat :: "string \<Rightarrow> 'f option"
  float_to_int64 :: "'f \<Rightarrow> int"
  float_of_int64 :: "int \<Rightarrow> 'f"
  float_sub :: "'f \<Rightarrow> 'f \<Rightarrow> 'f"
  float_mul :: "'f \<Rightarrow> 'f \<Rightarrow> 'f"

subsection \<open>http.Header\<close>

text \<open>
  A header is a map from canonical keys to lists of values; \<open>Get\<close> looks the
  canonical form of its key up and returns the first value, or the empty string.
\<close>

type_synonym Header = "string \<rightharpoonup> string list"

definition is_lower :: "char \<Rightarrow> bool" where
  "is_lower c = ((97::nat) \<le> of_char c \<and> of_char c \<le> (122::nat))"

definition is_upper :: "char \<Rightarrow> bool" where
  "is_upper c = ((65::nat) \<le> of_char c \<and> of_char c \<le> (90::nat))"

definition validHeaderFieldByte :: "char \<Rightarrow> bool" where
  "validHeaderFieldByte c =
     (is_lower c \<or> is_upper c \<or> digit_val c \<noteq> None \<or> c \<in> set ''!#$%&*+-.^_`|~'' \<or> of_char c = (39::nat))"

fun canonical_from :: "bool \<Rightarrow> string \<Rightarrow> string" where
  "canonical_from upper [] = []"
| "canonical_from upper (c # cs) =
     (if upper \<and> is_lower c then char_of (of_char c - (32::nat))
      else if \<not> upper \<and> is_upper c then char_of (of_char c + (32::nat))
      else c) # canonical_from (c = CHR ''-'') cs"

definition CanonicalMIMEHeaderKey :: "string \<Rightarrow> string" where
  "CanonicalMIMEHeaderKey s = (if list_all validHeaderFieldByte s then canonical_from True s else s)"

definition Header_Get :: "Header \<Rightarrow> string \<Rightarrow> string" where
  "Header_Get h key =
     (case h (CanonicalMIMEHeaderKey key) of
        None \<Rightarrow> []
      | Some [] \<Rightarrow> []
      | Some (v # vs) \<Rightarrow> v)"

subsection \<open>Limiter and bucket\<close>

record bucket =
  reset :: Time
  remaining :: "64 word"

record Limiter =
  buckets :: "string \<rightharpoonup> bucket"
  global :: Time

text \<open>
  A \<open>*bucket\<close> is represented by the key it is stored under: \<open>getBucket\<close> stores each
  bucket object under one key and nothing removes an entry, so a write through the
  pointer is an update of the entry of that key.
\<close>

datatype sleep_site = GlobalWait | BucketWait

record world =
  limiter :: Limiter
  clock :: Time
  slept :: "(sleep_site \<times> Duration) list"

datatype error = NilDereference

definition NewLimiter :: Limiter where
  "NewLimiter = \<lparr>buckets = Map.empty, global = zero_Time\<rparr>"

definition time_Now :: "world \<Rightarrow> Time" where
  "time_Now w = clock w"

text \<open>
  \<open>time.Sleep d\<close> returns at once when \<open>d\<close> is not positive, and after \<open>d\<close>
  otherwise (a real sleep may last longer; the limiter's state and the log do not
  depend on it, since \<open>Acquire\<close> does not read the clock after a sleep). The log keeps
  the duration of every call, with the place of the call in \<open>Acquire\<close>.
\<close>

definition time_Sleep :: "sleep_site \<Rightarrow> Duration \<Rightarrow> world \<Rightarrow> world" where
  "time_Sleep site d w =
     w\<lparr>clock := clock w + (if 0 < d then d else 0), slept := slept w @ [(site, d)]\<rparr>"

definition elapse :: "nat \<Rightarrow> world \<Rightarrow> world" where
  "elapse d w = w\<lparr>clock := clock w + int d\<rparr>"

definition getBucket :: "string \<Rightarrow> bool \<Rightarrow> Limiter \<Rightarrow> bucket option \<times> Limiter" where
  "getBucket path store l =
     (case buckets l path of
        Some b \<Rightarrow> (Some b, l)
      | None \<Rightarrow>
          if store
          then (Some \<lparr>reset = zero_Time, remaining = 1\<rparr>,
                l\<lparr>buckets := (buckets l)(path \<mapsto> \<lparr>reset = zero_Time, remaining = 1\<rparr>)\<rparr>)
          else (None, l))"

definition set_reset :: "string \<Rightarrow> Time \<Rightarrow> world \<Rightarrow> world" where
  "set_reset path t w =
     (case buckets (limiter w) path of
        None \<Rightarrow> w
      | Some b \<Rightarrow> w\<lparr>limiter := (limiter w)\<lparr>buckets := (buckets (limiter w))(path \<mapsto> b\<lparr>reset := t\<rparr>)\<rparr>\<rparr>)"

definition set_remaining :: "string \<Rightarrow> 64 word \<Rightarrow> world \<Rightarrow> world" where
  "set_remaining path u w =
     (case buckets (limiter w) path of
        None \<Rightarrow> w
      | Some b \<Rightarrow> w\<lparr>limiter := (limiter w)\<lparr>buckets := (buckets (limiter w))(path \<mapsto> b\<lparr>remaining := u\<rparr>)\<rparr>\<rparr>)"

definition set_global :: "Time \<Rightarrow> world \<Rightarrow> world" where
  "set_global t w = w\<lparr>limiter := (limiter w)\<lparr>global := t\<rparr>\<rparr>"

definition Acquire :: "string \<Rightarrow> world \<Rightarrow> error + world" where
  "Acquire path w =
     (let now = time_Now w;
          w1 = (if time_After (global (limiter w)) now
                then time_Sleep GlobalWait (wrap64 (time_Sub (global (limiter w)) now + ExtraDelay)) w
                else w);
          (r, l) = getBucket path True (limiter w1);
          w2 = w1\<lparr>limiter := l\<rparr>
      in case r of
           None \<Rightarrow> Inl NilDereference
         | Some b \<Rightarrow>
             (let w3 = (if remaining b = 0 \<and> time_After (reset b) now
                        then time_Sleep BucketWait (wrap64 (time_Sub (reset b) now + ExtraDelay)) w2
                        else w2)
              in Inr (if 0 < remaining b then set_remaining path (remaining b - 1) w3 else w3)))"

text \<open>Lines 112 to 121 of the source: the update of \<open>remaining\<close>, after the switch.\<close>

definition Release_remaining :: "string \<Rightarrow> string \<Rightarrow> world \<Rightarrow> world" where
  "Release_remaining path remaining_h w =
     (if remaining_h \<noteq> []
      then (case ParseUint remaining_h of
              None \<Rightarrow> w
            | Some u \<Rightarrow> set_remaining path u w)
      else w)"

definition Release :: "'f float64_ops \<Rightarrow> string \<Rightarrow> Header \<Rightarrow> world \<Rightarrow> world" where
  "Release F path headers w =
     (case getBucket path False (limiter w) of
        (None, l) \<Rightarrow> w\<lparr>limiter := l\<rparr>
      | (Some b, l) \<Rightarrow>
          (let w = w\<lparr>limiter := l\<rparr>;
               global_h = Header_Get headers ''X-RateLimit-Global'';
               remaining_h = Header_Get headers ''X-RateLimit-Remaining'';
               reset_h = Header_Get headers ''X-RateLimit-Reset'';
               retryAfter = Header_Get headers ''Retry-After''
           in if retryAfter \<noteq> []
              then (case Atoi retryAfter of
                      None \<Rightarrow> w
                    | Some i \<Rightarrow>
                        (let at' = time_Add (time_Now w) (wrap64 (i * Second))
                         in Release_remaining path remaining_h
                              (if global_h \<noteq> [] then set_global at' w else set_reset path at' w)))
              else if reset_h \<noteq> []
              then (case ParseFloat F reset_h of
                      None \<Rightarrow> w
                    | Some unix \<Rightarrow>
                        (let sec = float_to_int64 F unix;
                             nsec = float_to_int64 F
                                      (float_mul F (float_sub F unix (float_of_int64 F sec))
                                         (float_of_int64 F Second))
                         in Release_remaining path remaining_h
                              (set_reset path (time_Add (time_Unix sec nsec) ExtraDelay) w)))
              else Release_remaining path remaining_h w))"

subsection \<open>The log of sleeps\<close>

text \<open>
  \<open>global_wait w\<close> is what the wait for the global cool-down adds to the log when
  \<open>Acquire\<close> is called in \<open>w\<close>; \<open>bucket_waits w\<close> are the durations of the waits for
  an exhausted bucket that the log of \<open>w\<close> holds.
\<close>

definition global_wait :: "world \<Rightarrow> (sleep_site \<times> Duration) list" where
  "global_wait w =
     (if time_After (global (limiter w)) (time_Now w)
      then [(GlobalWait, wrap64 (time_Sub (global (limiter w)) (time_Now w) + ExtraDelay))]
      else [])"

definition bucket_waits :: "world \<Rightarrow> Duration list" where
  "bucket_waits w = map snd (filter (\<lambda>e. fst e = BucketWait) (slept w))"

subsection \<open>Sequences of calls\<close>





subsection \<open>Data of the examples\<close>

text \<open>
  An instance of the floating-point operations for the examples: exact arithmetic on
  rationals and plain decimal numerals (digits, then optionally a point and digits).
  On the inputs of the examples it computes what \<open>float64\<close> computes, since
  \<open>float64\<close> represents their values and intermediate results exactly.
\<close>

definition decimal_ParseFloat :: "string \<Rightarrow> rat option" where
  "decimal_ParseFloat s =
     (case decimal (takeWhile (\<lambda>c. c \<noteq> CHR ''.'') s) of
        None \<Rightarrow> None
      | Some i \<Rightarrow>
          (case dropWhile (\<lambda>c. c \<noteq> CHR ''.'') s of
             [] \<Rightarrow> Some (of_nat i)
           | p # fs \<Rightarrow>
               (case decimal fs of
                  None \<Rightarrow> None
                | Some f \<Rightarrow> Some (of_nat i + of_nat f / 10 ^ length fs))))"

definition decimal_ops :: "rat float64_ops" where
  "decimal_ops =
     \<lparr>ParseFloat = decimal_ParseFloat,
      float_to_int64 = (\<lambda>x. if 0 \<le> x then \<lfloor>x\<rfloor> else \<lceil>x\<rceil>),
      float_of_int64 = of_int,
      float_sub = (\<lambda>x y. x - y),
      float_mul = (\<lambda>x y. x * y)\<rparr>"

text \<open>A limiter that has never been used, at 2023-11-14 22:13:20 UTC.\<close>

definition w_new :: world where
  "w_new = \<lparr>limiter = NewLimiter, clock = 1700000000 * Second, slept = []\<rparr>"

text \<open>The same, with one bucket for the key \<open>k\<close>, as \<open>getBucket\<close> creates it.\<close>

definition w_one :: world where
  "w_one =
     \<lparr>limiter = \<lparr>buckets = [''k'' \<mapsto> \<lparr>reset = zero_Time, remaining = 1\<rparr>], global = zero_Time\<rparr>,
      clock = 1700000000 * Second, slept = []\<rparr>"

definition h_global_retry :: Header where
  "h_global_retry = [''Retry-After'' \<mapsto> [''2''], ''X-Ratelimit-Global'' \<mapsto> [''true'']]"

text \<open>
  Two buckets, the one of \<open>j\<close> exhausted; and a limiter under a global cool-down of ten
  seconds whose bucket \<open>k\<close> is exhausted for five.
\<close>

definition w_two :: world where
  "w_two =
     \<lparr>limiter =
        \<lparr>buckets = [''k'' \<mapsto> \<lparr>reset = zero_Time, remaining = 1\<rparr>,
                    ''j'' \<mapsto> \<lparr>reset = 1700000003 * Second, remaining = 0\<rparr>],
         global = zero_Time\<rparr>,
      clock = 1700000000 * Second, slept = []\<rparr>"

definition w_cool :: world where
  "w_cool =
     \<lparr>limiter =
        \<lparr>buckets = [''k'' \<mapsto> \<lparr>reset = 1700000005 * Second, remaining = 0\<rparr>],
         global = 1700000010 * Second\<rparr>,
      clock = 1700000000 * Second, slept = []\<rparr>"

definition h_remaining5 :: Header where
  "h_remaining5 = [''X-Ratelimit-Remaining'' \<mapsto> [''5'']]"

text \<open>Headers of responses, under the canonical keys that \<open>net/http\<close> stores.\<close>

definition h_retry_bad_remaining :: Header where
  "h_retry_bad_remaining = [''Retry-After'' \<mapsto> [''2''], ''X-Ratelimit-Remaining'' \<mapsto> [''abc'']]"

definition h_bad_retry :: Header where
  "h_bad_retry = [''Retry-After'' \<mapsto> [''soon''], ''X-Ratelimit-Remaining'' \<mapsto> [''5'']]"

definition h_retry_huge :: Header where
  "h_retry_huge = [''Retry-After'' \<mapsto> [''10000000000'']]"

definition h_retry_reset :: Header where
  "h_retry_reset = [''Retry-After'' \<mapsto> [''2''], ''X-Ratelimit-Reset'' \<mapsto> [''1700000009.5'']]"


definition h_bad_reset :: Header where
  "h_bad_reset = [''X-Ratelimit-Reset'' \<mapsto> [''tomorrow''], ''X-Ratelimit-Remaining'' \<mapsto> [''5'']]"


section \<open>Properties\<close>

subsection \<open>Header keys\<close>

lemma key_Global: "CanonicalMIMEHeaderKey ''X-RateLimit-Global'' = ''X-Ratelimit-Global''"
  by (simp add: CanonicalMIMEHeaderKey_def validHeaderFieldByte_def is_lower_def is_upper_def
      digit_val_def char_of_def bit_Suc_0_iff)

lemma key_Remaining: "CanonicalMIMEHeaderKey ''X-RateLimit-Remaining'' = ''X-Ratelimit-Remaining''"
  by (simp add: CanonicalMIMEHeaderKey_def validHeaderFieldByte_def is_lower_def is_upper_def
      digit_val_def char_of_def bit_Suc_0_iff)

lemma key_Reset: "CanonicalMIMEHeaderKey ''X-RateLimit-Reset'' = ''X-Ratelimit-Reset''"
  by (simp add: CanonicalMIMEHeaderKey_def validHeaderFieldByte_def is_lower_def is_upper_def
      digit_val_def char_of_def bit_Suc_0_iff)

lemma key_Retry: "CanonicalMIMEHeaderKey ''Retry-After'' = ''Retry-After''"
  by (simp add: CanonicalMIMEHeaderKey_def validHeaderFieldByte_def is_lower_def is_upper_def
      digit_val_def char_of_def bit_Suc_0_iff)

lemmas header_keys = key_Global key_Remaining key_Reset key_Retry

subsection \<open>The registry\<close>

lemma getBucket_lookup: "getBucket path False l = (buckets l path, l)"
  by (simp add: getBucket_def split: option.split)

lemma getBucket_store_found:
  "buckets l path = Some b \<Longrightarrow> getBucket path True l = (Some b, l)"
  by (simp add: getBucket_def)

lemma getBucket_store_fresh:
  "buckets l path = None \<Longrightarrow>
   getBucket path True l =
     (Some \<lparr>reset = zero_Time, remaining = 1\<rparr>,
      l\<lparr>buckets := (buckets l)(path \<mapsto> \<lparr>reset = zero_Time, remaining = 1\<rparr>)\<rparr>)"
  by (simp add: getBucket_def)

lemma dom_set_reset: "dom (buckets (limiter (set_reset path t w))) = dom (buckets (limiter w))"
  by (auto simp: set_reset_def split: option.splits)

lemma dom_set_remaining: "dom (buckets (limiter (set_remaining path u w))) = dom (buckets (limiter w))"
  by (auto simp: set_remaining_def split: option.splits)

lemma dom_set_global: "dom (buckets (limiter (set_global t w))) = dom (buckets (limiter w))"
  by (simp add: set_global_def)

lemma dom_Release_remaining:
  "dom (buckets (limiter (Release_remaining path r w))) = dom (buckets (limiter w))"
  by (simp add: Release_remaining_def dom_set_remaining split: option.split)

subsection \<open>Release\<close>

lemma Release_unknown: "buckets (limiter w) path = None \<Longrightarrow> Release F path headers w = w"
  by (simp add: Release_def getBucket_lookup)

lemma Release_known:
  "buckets (limiter w) path = Some b \<Longrightarrow>
   Release F path headers w =
     (if Header_Get headers ''Retry-After'' \<noteq> []
      then (case Atoi (Header_Get headers ''Retry-After'') of
              None \<Rightarrow> w
            | Some i \<Rightarrow>
                Release_remaining path (Header_Get headers ''X-RateLimit-Remaining'')
                  (if Header_Get headers ''X-RateLimit-Global'' \<noteq> []
                   then set_global (time_Add (time_Now w) (wrap64 (i * Second))) w
                   else set_reset path (time_Add (time_Now w) (wrap64 (i * Second))) w))
      else if Header_Get headers ''X-RateLimit-Reset'' \<noteq> []
      then (case ParseFloat F (Header_Get headers ''X-RateLimit-Reset'') of
              None \<Rightarrow> w
            | Some unix \<Rightarrow>
                Release_remaining path (Header_Get headers ''X-RateLimit-Remaining'')
                  (set_reset path
                     (time_Add
                        (time_Unix (float_to_int64 F unix)
                           (float_to_int64 F
                              (float_mul F (float_sub F unix (float_of_int64 F (float_to_int64 F unix)))
                                 (float_of_int64 F Second))))
                        ExtraDelay) w))
      else Release_remaining path (Header_Get headers ''X-RateLimit-Remaining'') w)"
  by (simp add: Release_def getBucket_lookup Let_def split: option.split)

lemma dom_Release: "dom (buckets (limiter (Release F path headers w))) = dom (buckets (limiter w))"
proof (cases "buckets (limiter w) path")
  case None
  then show ?thesis by (simp add: Release_unknown)
next
  case (Some b)
  show ?thesis
    by (simp add: Release_known [OF Some] dom_Release_remaining dom_set_reset dom_set_global
        split: option.split)
qed

text \<open>
  C7. For a key with no bucket in the registry, \<open>Release\<close> returns the state it was
  given, whatever the headers are; and no call of \<open>Release\<close>, on any key, adds a key
  to the registry.
\<close>

theorem Release_unknown_key_noop:
  "(buckets (limiter w) key = None \<longrightarrow> Release F key headers w = w) \<and>
   dom (buckets (limiter (Release F key headers w))) = dom (buckets (limiter w))"
proof (intro conjI impI)
  assume "buckets (limiter w) key = None"
  then show "Release F key headers w = w"
    by (rule Release_unknown)
next
  show "dom (buckets (limiter (Release F key headers w))) = dom (buckets (limiter w))"
    by (rule dom_Release)
qed

theorem Release_unknown_key_noop_witness:
  "buckets (limiter w_new) ''k'' = None \<and>
   Release decimal_ops ''k'' h_global_retry w_new = w_new \<and>
   dom (buckets (limiter (Release decimal_ops ''k'' h_global_retry w_new))) = {}"
  using Release_unknown_key_noop [of w_new "''k''" decimal_ops h_global_retry]
  by (simp add: w_new_def NewLimiter_def)

subsection \<open>Acquire\<close>

lemma limiter_time_Sleep [simp]: "limiter (time_Sleep s d w) = limiter w"
  by (simp add: time_Sleep_def)

lemma slept_time_Sleep [simp]: "slept (time_Sleep s d w) = slept w @ [(s, d)]"
  by (simp add: time_Sleep_def)

lemma slept_set_remaining [simp]: "slept (set_remaining path u w) = slept w"
  by (simp add: set_remaining_def split: option.split)

lemma global_set_remaining [simp]: "global (limiter (set_remaining path u w)) = global (limiter w)"
  by (simp add: set_remaining_def split: option.split)

lemma buckets_set_remaining:
  "buckets (limiter (set_remaining path u w)) =
     (case buckets (limiter w) path of
        None \<Rightarrow> buckets (limiter w)
      | Some b \<Rightarrow> (buckets (limiter w))(path \<mapsto> b\<lparr>remaining := u\<rparr>))"
  by (simp add: set_remaining_def split: option.split)

lemma Acquire_found:
  assumes "buckets (limiter w) path = Some b"
  shows "\<exists>w'. Acquire path w = Inr w' \<and>
      global (limiter w') = global (limiter w) \<and>
      buckets (limiter w') =
        (buckets (limiter w))(path \<mapsto> b\<lparr>remaining := (if 0 < remaining b then remaining b - 1 else remaining b)\<rparr>) \<and>
      slept w' = slept w @ global_wait w @
        (if remaining b = 0 \<and> time_After (reset b) (time_Now w)
         then [(BucketWait, wrap64 (time_Sub (reset b) (time_Now w) + ExtraDelay))] else [])"
  using assms
  by (auto simp: Acquire_def getBucket_store_found Let_def global_wait_def buckets_set_remaining)

lemma Acquire_fresh:
  assumes "buckets (limiter w) path = None"
  shows "\<exists>w'. Acquire path w = Inr w' \<and>
      global (limiter w') = global (limiter w) \<and>
      buckets (limiter w') = (buckets (limiter w))(path \<mapsto> \<lparr>reset = zero_Time, remaining = 0\<rparr>) \<and>
      slept w' = slept w @ global_wait w"
  using assms
  by (auto simp: Acquire_def getBucket_store_fresh Let_def global_wait_def buckets_set_remaining)

text \<open>
  C10. \<open>Acquire\<close> returns, and all it changes in the limiter is the bucket of its key:
  an absent bucket is inserted as \<open>getBucket\<close> creates it (zero reset, remaining 1) and
  its remaining is decremented, a bucket that is there has its remaining decremented
  when it is positive. The global cool-down, the reset of every bucket and the buckets
  of all other keys are what they were.
\<close>

theorem Acquire_frame:
  "case Acquire path w of
     Inl e \<Rightarrow> False
   | Inr w' \<Rightarrow>
       global (limiter w') = global (limiter w) \<and>
       (\<forall>k. k \<noteq> path \<longrightarrow> buckets (limiter w') k = buckets (limiter w) k) \<and>
       (\<forall>k b. buckets (limiter w) k = Some b \<longrightarrow> map_option reset (buckets (limiter w') k) = Some (reset b)) \<and>
       buckets (limiter w') path =
         Some (case buckets (limiter w) path of
                 None \<Rightarrow> \<lparr>reset = zero_Time, remaining = 1 - 1\<rparr>
               | Some b \<Rightarrow> b\<lparr>remaining := (if 0 < remaining b then remaining b - 1 else remaining b)\<rparr>)"
proof (cases "buckets (limiter w) path")
  case None
  from Acquire_fresh [OF None] show ?thesis
    using None by auto
next
  case (Some b)
  from Acquire_found [OF Some] show ?thesis
    using Some by auto
qed

theorem Acquire_frame_witness:
  "''j'' \<noteq> ''k'' \<and> buckets (limiter w_two) ''k'' = Some \<lparr>reset = zero_Time, remaining = 1\<rparr> \<and>
   (case Acquire ''k'' w_two of
      Inl e \<Rightarrow> False
    | Inr w' \<Rightarrow>
        global (limiter w') = zero_Time \<and>
        buckets (limiter w') ''j'' = Some \<lparr>reset = 1700000003 * Second, remaining = 0\<rparr> \<and>
        buckets (limiter w') ''k'' = Some \<lparr>reset = zero_Time, remaining = 0\<rparr>)"
  using Acquire_frame [where path = "''k''" and w = w_two]
  by (auto simp: w_two_def split: sum.splits)



text \<open>
  C2, as the code has it. \<open>Acquire\<close> reads the clock once, at the start of the call.
  When the wait for the global cool-down is taken, the test of the bucket's reset and
  the duration of the wait for the bucket are still computed from that first reading.
\<close>

theorem Acquire_reads_clock_once:
  assumes "time_After (global (limiter w)) (time_Now w)"
  shows "case Acquire path w of
      Inl e \<Rightarrow> False
    | Inr w' \<Rightarrow>
        slept w' =
          slept w @ [(GlobalWait, wrap64 (time_Sub (global (limiter w)) (time_Now w) + ExtraDelay))] @
          (case buckets (limiter w) path of
             None \<Rightarrow> []
           | Some b \<Rightarrow>
               if remaining b = 0 \<and> time_After (reset b) (time_Now w)
               then [(BucketWait, wrap64 (time_Sub (reset b) (time_Now w) + ExtraDelay))]
               else [])"
proof (cases "buckets (limiter w) path")
  case None
  from Acquire_fresh [OF None] show ?thesis
    using None assms by (auto simp: global_wait_def)
next
  case (Some b)
  from Acquire_found [OF Some] show ?thesis
    using Some assms by (auto simp: global_wait_def)
qed

theorem Acquire_reads_clock_once_witness:
  "time_After (global (limiter w_cool)) (time_Now w_cool) \<and>
   (case Acquire ''k'' w_cool of
      Inl e \<Rightarrow> False
    | Inr w' \<Rightarrow> slept w' = [(GlobalWait, 10250000000), (BucketWait, 5250000000)])"
  using Acquire_reads_clock_once [where w = w_cool and path = "''k''"]
  by (auto simp: w_cool_def time_After_def time_Now_def time_Sub_def Second_def ExtraDelay_def
      Millisecond_def wrap64_def minDuration_def maxDuration_def split: sum.splits)

text \<open>
  C2, as stated, fails. The global cool-down ends ten seconds after the call and the
  bucket's reset is five seconds after the call. After the global wait the clock reads
  10.25 s after the call, which the reset is not after, so a test against a fresh
  reading would not sleep; the code sleeps 5.25 s, computed from the first reading.
\<close>

theorem Acquire_fresh_clock_counterexample:
  "time_After (global (limiter w_cool)) (time_Now w_cool) \<and>
   map_sum id slept (Acquire ''k'' w_cool) = Inr [(GlobalWait, 10250000000), (BucketWait, 5250000000)] \<and>
   time_Now (time_Sleep GlobalWait 10250000000 w_cool) = 1700000010250000000 \<and>
   \<not> time_After (1700000005 * Second) (time_Now (time_Sleep GlobalWait 10250000000 w_cool))"
  by (simp add: Acquire_def getBucket_def Let_def w_cool_def time_After_def time_Now_def time_Sub_def
      time_Sleep_def Second_def ExtraDelay_def Millisecond_def wrap64_def minDuration_def maxDuration_def)

subsection \<open>Release and the headers\<close>

lemma Atoi_empty [simp]: "Atoi [] = None"
  by (simp add: Atoi_def)

lemma global_set_reset [simp]: "global (limiter (set_reset path t w)) = global (limiter w)"
  by (simp add: set_reset_def split: option.split)

lemma global_set_global [simp]: "global (limiter (set_global t w)) = t"
  by (simp add: set_global_def)

lemma buckets_set_global [simp]: "buckets (limiter (set_global t w)) = buckets (limiter w)"
  by (simp add: set_global_def)

lemma buckets_set_reset:
  "buckets (limiter (set_reset path t w)) =
     (case buckets (limiter w) path of
        None \<Rightarrow> buckets (limiter w)
      | Some b \<Rightarrow> (buckets (limiter w))(path \<mapsto> b\<lparr>reset := t\<rparr>))"
  by (simp add: set_reset_def split: option.split)

lemma remaining_set_reset [simp]:
  "map_option remaining (buckets (limiter (set_reset path t w)) k) =
   map_option remaining (buckets (limiter w) k)"
  by (simp add: buckets_set_reset split: option.split)

lemma reset_set_remaining [simp]:
  "map_option reset (buckets (limiter (set_remaining path u w)) k) =
   map_option reset (buckets (limiter w) k)"
  by (simp add: buckets_set_remaining split: option.split)

lemma global_Release_remaining [simp]:
  "global (limiter (Release_remaining path r w)) = global (limiter w)"
  by (simp add: Release_remaining_def split: option.split)

lemma reset_Release_remaining [simp]:
  "map_option reset (buckets (limiter (Release_remaining path r w)) k) =
   map_option reset (buckets (limiter w) k)"
  by (simp add: Release_remaining_def split: option.split)

lemma Release_remaining_malformed:
  "r \<noteq> [] \<Longrightarrow> ParseUint r = None \<Longrightarrow> Release_remaining path r w = w"
  by (simp add: Release_remaining_def)

lemma Release_remaining_absent: "Release_remaining path [] w = w"
  by (simp add: Release_remaining_def)

lemma Header_Get_without_Remaining:
  "Header_Get (h(''X-Ratelimit-Remaining'' := None)) ''X-RateLimit-Remaining'' = []"
  "Header_Get (h(''X-Ratelimit-Remaining'' := None)) ''X-RateLimit-Global'' = Header_Get h ''X-RateLimit-Global''"
  "Header_Get (h(''X-Ratelimit-Remaining'' := None)) ''X-RateLimit-Reset'' = Header_Get h ''X-RateLimit-Reset''"
  "Header_Get (h(''X-Ratelimit-Remaining'' := None)) ''Retry-After'' = Header_Get h ''Retry-After''"
  by (simp_all add: Header_Get_def header_keys)

lemma Header_Get_other_Reset:
  "Header_Get (h(''X-Ratelimit-Reset'' := v)) ''X-RateLimit-Remaining'' = Header_Get h ''X-RateLimit-Remaining''"
  "Header_Get (h(''X-Ratelimit-Reset'' := v)) ''X-RateLimit-Global'' = Header_Get h ''X-RateLimit-Global''"
  "Header_Get (h(''X-Ratelimit-Reset'' := v)) ''Retry-After'' = Header_Get h ''Retry-After''"
  by (simp_all add: Header_Get_def header_keys)

text \<open>
  C1, as the code has it. On an existing bucket: when \<open>Retry-After\<close> is present and is
  not an integer, or \<open>Retry-After\<close> is absent and \<open>X-RateLimit-Reset\<close> is present and
  is not a float, \<open>Release\<close> returns the state unchanged. When
  \<open>X-RateLimit-Remaining\<close> is present and is not an unsigned integer, the remaining
  of every bucket is unchanged, and the state is the one that the same call without
  that header leaves: the update for \<open>Retry-After\<close> or \<open>X-RateLimit-Reset\<close> that
  came before it is kept.
\<close>

theorem Release_parse_failure:
  assumes "buckets (limiter w) path = Some b"
  shows
    "(Header_Get h ''Retry-After'' \<noteq> [] \<and> Atoi (Header_Get h ''Retry-After'') = None
        \<longrightarrow> Release F path h w = w) \<and>
     (Header_Get h ''Retry-After'' = [] \<and> Header_Get h ''X-RateLimit-Reset'' \<noteq> [] \<and>
      ParseFloat F (Header_Get h ''X-RateLimit-Reset'') = None
        \<longrightarrow> Release F path h w = w) \<and>
     (Header_Get h ''X-RateLimit-Remaining'' \<noteq> [] \<and>
      ParseUint (Header_Get h ''X-RateLimit-Remaining'') = None
        \<longrightarrow> Release F path h w = Release F path (h(''X-Ratelimit-Remaining'' := None)) w \<and>
            (\<forall>k. map_option remaining (buckets (limiter (Release F path h w)) k) =
                 map_option remaining (buckets (limiter w) k)))"
proof (intro conjI impI)
  assume "Header_Get h ''Retry-After'' \<noteq> [] \<and> Atoi (Header_Get h ''Retry-After'') = None"
  then show "Release F path h w = w"
    by (simp add: Release_known [OF assms])
next
  assume "Header_Get h ''Retry-After'' = [] \<and> Header_Get h ''X-RateLimit-Reset'' \<noteq> [] \<and>
      ParseFloat F (Header_Get h ''X-RateLimit-Reset'') = None"
  then show "Release F path h w = w"
    by (simp add: Release_known [OF assms])
next
  assume bad: "Header_Get h ''X-RateLimit-Remaining'' \<noteq> [] \<and>
      ParseUint (Header_Get h ''X-RateLimit-Remaining'') = None"
  then show "Release F path h w = Release F path (h(''X-Ratelimit-Remaining'' := None)) w"
    by (simp add: Release_known [OF assms] Header_Get_without_Remaining
        Release_remaining_malformed Release_remaining_absent split: option.split)
  from bad show "\<forall>k. map_option remaining (buckets (limiter (Release F path h w)) k) =
      map_option remaining (buckets (limiter w) k)"
    by (simp add: Release_known [OF assms] Release_remaining_malformed split: option.split)
qed


lemmas eval_time =
  time_After_def time_Now_def time_Sub_def time_Add_def time_Unix_def Second_def ExtraDelay_def
  Millisecond_def wrap64_def minDuration_def maxDuration_def zero_Time_def

lemmas eval_parse = Atoi_def ParseUint_def decimal_def digit_val_def

lemma w_one_k: "buckets (limiter w_one) ''k'' = Some \<lparr>reset = zero_Time, remaining = 1\<rparr>"
  by (simp add: w_one_def)

lemmas eval_header = Header_Get_def header_keys

theorem Release_parse_failure_witness:
  "buckets (limiter w_one) ''k'' = Some \<lparr>reset = zero_Time, remaining = 1\<rparr> \<and>
   Atoi (Header_Get h_bad_retry ''Retry-After'') = None \<and>
   Release decimal_ops ''k'' h_bad_retry w_one = w_one \<and>
   Header_Get h_bad_reset ''Retry-After'' = [] \<and>
   ParseFloat decimal_ops (Header_Get h_bad_reset ''X-RateLimit-Reset'') = None \<and>
   Release decimal_ops ''k'' h_bad_reset w_one = w_one \<and>
   ParseUint (Header_Get h_retry_bad_remaining ''X-RateLimit-Remaining'') = None \<and>
   Release decimal_ops ''k'' h_retry_bad_remaining w_one =
     Release decimal_ops ''k'' (h_retry_bad_remaining(''X-Ratelimit-Remaining'' := None)) w_one \<and>
   map_option remaining (buckets (limiter (Release decimal_ops ''k'' h_retry_bad_remaining w_one)) ''k'') =
     Some 1"
proof -
  have retry: "Header_Get h_bad_retry ''Retry-After'' \<noteq> [] \<and>
      Atoi (Header_Get h_bad_retry ''Retry-After'') = None"
    by (simp add: h_bad_retry_def eval_header eval_parse)
  have reset: "Header_Get h_bad_reset ''Retry-After'' = [] \<and>
      Header_Get h_bad_reset ''X-RateLimit-Reset'' \<noteq> [] \<and>
      ParseFloat decimal_ops (Header_Get h_bad_reset ''X-RateLimit-Reset'') = None"
    by (simp add: h_bad_reset_def eval_header eval_parse decimal_ops_def decimal_ParseFloat_def)
  have rem: "Header_Get h_retry_bad_remaining ''X-RateLimit-Remaining'' \<noteq> [] \<and>
      ParseUint (Header_Get h_retry_bad_remaining ''X-RateLimit-Remaining'') = None"
    by (simp add: h_retry_bad_remaining_def eval_header eval_parse)
  note a = Release_parse_failure [OF w_one_k, where F = decimal_ops and h = h_bad_retry]
  note b = Release_parse_failure [OF w_one_k, where F = decimal_ops and h = h_bad_reset]
  note c = Release_parse_failure [OF w_one_k, where F = decimal_ops and h = h_retry_bad_remaining]
  from a retry have 1: "Release decimal_ops ''k'' h_bad_retry w_one = w_one"
    by blast
  from b reset have 2: "Release decimal_ops ''k'' h_bad_reset w_one = w_one"
    by blast
  from c rem have 3: "Release decimal_ops ''k'' h_retry_bad_remaining w_one =
      Release decimal_ops ''k'' (h_retry_bad_remaining(''X-Ratelimit-Remaining'' := None)) w_one"
    and 4: "map_option remaining (buckets (limiter (Release decimal_ops ''k'' h_retry_bad_remaining w_one)) ''k'') =
      map_option remaining (buckets (limiter w_one) ''k'')"
    by blast+
  from 4 have 5: "map_option remaining (buckets (limiter (Release decimal_ops ''k'' h_retry_bad_remaining w_one)) ''k'') =
      Some 1"
    by (simp add: w_one_k)
  from w_one_k retry reset rem 1 2 3 5 show ?thesis
    by blast
qed

text \<open>
  C1, as stated, fails. With \<open>Retry-After: 2\<close> and \<open>X-RateLimit-Remaining: abc\<close> the
  value of \<open>X-RateLimit-Remaining\<close> does not parse, and the call has already moved the
  bucket's reset to two seconds after the call when it returns.
\<close>

theorem Release_partial_update_counterexample:
  "buckets (limiter w_one) ''k'' = Some \<lparr>reset = zero_Time, remaining = 1\<rparr> \<and>
   ParseUint (Header_Get h_retry_bad_remaining ''X-RateLimit-Remaining'') = None \<and>
   buckets (limiter (Release decimal_ops ''k'' h_retry_bad_remaining w_one)) ''k'' =
     Some \<lparr>reset = 1700000002 * Second, remaining = 1\<rparr> \<and>
   Release decimal_ops ''k'' h_retry_bad_remaining w_one \<noteq> w_one"
proof -
  have p: "ParseUint (Header_Get h_retry_bad_remaining ''X-RateLimit-Remaining'') = None"
    by (simp add: h_retry_bad_remaining_def eval_header eval_parse)
  have "Release decimal_ops ''k'' h_retry_bad_remaining w_one =
      set_reset ''k'' (time_Add (time_Now w_one) (wrap64 (2 * Second))) w_one"
    unfolding Release_known [OF w_one_k]
    by (simp add: h_retry_bad_remaining_def eval_header eval_parse Release_remaining_def)
  then have r: "buckets (limiter (Release decimal_ops ''k'' h_retry_bad_remaining w_one)) ''k'' =
     Some \<lparr>reset = 1700000002 * Second, remaining = 1\<rparr>"
    by (simp add: set_reset_def w_one_def eval_time)
  from r w_one_k have "Release decimal_ops ''k'' h_retry_bad_remaining w_one \<noteq> w_one"
    by (auto simp: zero_Time_def Second_def)
  with w_one_k p r show ?thesis by blast
qed


lemma wrap64_id: "minDuration \<le> x \<Longrightarrow> x \<le> maxDuration \<Longrightarrow> wrap64 x = x"
  by (simp add: wrap64_def minDuration_def maxDuration_def)

lemma reset_set_reset:
  "buckets (limiter w) path = Some b \<Longrightarrow>
   map_option reset (buckets (limiter (set_reset path t w)) path) = Some t"
  by (simp add: buckets_set_reset)

text \<open>
  C3, for the delays that a \<open>time.Duration\<close> holds. On an existing bucket, when
  \<open>Retry-After\<close> parses as the integer \<open>n\<close> and \<open>n\<close> seconds are within
  \<open>minDuration\<close> and \<open>maxDuration\<close>: with a non-empty \<open>X-RateLimit-Global\<close> the
  global cool-down becomes the time of the call plus \<open>n\<close> seconds and the bucket's
  reset is unchanged; otherwise the bucket's reset becomes that instant and the global
  cool-down is unchanged. The value of \<open>X-RateLimit-Reset\<close> makes no difference.
\<close>

theorem Release_Retry_After:
  assumes "buckets (limiter w) path = Some b"
    and "Atoi (Header_Get h ''Retry-After'') = Some n"
    and "minDuration \<le> n * Second" and "n * Second \<le> maxDuration"
  shows
    "global (limiter (Release F path h w)) =
       (if Header_Get h ''X-RateLimit-Global'' \<noteq> []
        then time_Add (time_Now w) (n * Second) else global (limiter w)) \<and>
     map_option reset (buckets (limiter (Release F path h w)) path) =
       Some (if Header_Get h ''X-RateLimit-Global'' \<noteq> []
             then reset b else time_Add (time_Now w) (n * Second)) \<and>
     Release F path (h(''X-Ratelimit-Reset'' := v)) w = Release F path h w"
proof -
  from assms(2) have present: "Header_Get h ''Retry-After'' \<noteq> []"
    by auto
  have w: "wrap64 (n * Second) = n * Second"
    using assms(3,4) by (rule wrap64_id)
  have "global (limiter (Release F path h w)) =
       (if Header_Get h ''X-RateLimit-Global'' \<noteq> []
        then time_Add (time_Now w) (n * Second) else global (limiter w))"
    using present assms(2) by (simp add: Release_known [OF assms(1)] w)
  moreover have "map_option reset (buckets (limiter (Release F path h w)) path) =
       Some (if Header_Get h ''X-RateLimit-Global'' \<noteq> []
             then reset b else time_Add (time_Now w) (n * Second))"
    using present assms(1,2) by (simp add: Release_known [OF assms(1)] w buckets_set_reset)
  moreover have "Release F path (h(''X-Ratelimit-Reset'' := v)) w = Release F path h w"
    using present assms(2) by (simp add: Release_known [OF assms(1)] Header_Get_other_Reset)
  ultimately show ?thesis by blast
qed

theorem Release_Retry_After_witness:
  "buckets (limiter w_one) ''k'' = Some \<lparr>reset = zero_Time, remaining = 1\<rparr> \<and>
   Atoi (Header_Get h_retry_reset ''Retry-After'') = Some 2 \<and>
   Header_Get h_retry_reset ''X-RateLimit-Global'' = [] \<and>
   global (limiter (Release decimal_ops ''k'' h_retry_reset w_one)) = global (limiter w_one) \<and>
   map_option reset (buckets (limiter (Release decimal_ops ''k'' h_retry_reset w_one)) ''k'') =
     Some (1700000002 * Second) \<and>
   Release decimal_ops ''k'' (h_retry_reset(''X-Ratelimit-Reset'' := None)) w_one =
     Release decimal_ops ''k'' h_retry_reset w_one \<and>
   Atoi (Header_Get h_global_retry ''Retry-After'') = Some 2 \<and>
   Header_Get h_global_retry ''X-RateLimit-Global'' = ''true'' \<and>
   global (limiter (Release decimal_ops ''k'' h_global_retry w_one)) = 1700000002 * Second \<and>
   map_option reset (buckets (limiter (Release decimal_ops ''k'' h_global_retry w_one)) ''k'') =
     Some zero_Time"
proof -
  have a: "Atoi (Header_Get h_retry_reset ''Retry-After'') = Some 2"
    and g: "Header_Get h_retry_reset ''X-RateLimit-Global'' = []"
    and a': "Atoi (Header_Get h_global_retry ''Retry-After'') = Some 2"
    and g': "Header_Get h_global_retry ''X-RateLimit-Global'' = ''true''"
    by (simp_all add: h_retry_reset_def h_global_retry_def eval_header eval_parse)
  have lo: "minDuration \<le> 2 * Second" and hi: "2 * Second \<le> maxDuration"
    by (simp_all add: minDuration_def maxDuration_def Second_def)
  note t = Release_Retry_After [OF w_one_k a lo hi, where F = decimal_ops and v = None]
  note t' = Release_Retry_After [OF w_one_k a' lo hi, where F = decimal_ops and v = None]
  have now: "time_Add (time_Now w_one) (2 * Second) = 1700000002 * Second"
    by (simp add: w_one_def eval_time)
  from t t' show ?thesis
    by (simp add: a g a' g' now w_one_k)
qed

text \<open>
  C3, as stated, fails. \<open>Retry-After: 10000000000\<close> parses as an \<open>int\<close>, and the
  product with \<open>time.Second\<close> wraps around in \<open>int64\<close>: the bucket's reset becomes
  8446744073.709551616 s before the call, not 10000000000 s after it.
\<close>

theorem Release_Retry_After_overflow_counterexample:
  "buckets (limiter w_one) ''k'' = Some \<lparr>reset = zero_Time, remaining = 1\<rparr> \<and>
   Atoi (Header_Get h_retry_huge ''Retry-After'') = Some 10000000000 \<and>
   map_option reset (buckets (limiter (Release decimal_ops ''k'' h_retry_huge w_one)) ''k'') =
     Some (time_Now w_one - 8446744073709551616) \<and>
   time_Now w_one - 8446744073709551616 \<noteq> time_Add (time_Now w_one) (10000000000 * Second)"
proof -
  have a: "Atoi (Header_Get h_retry_huge ''Retry-After'') = Some 10000000000"
    by (simp add: h_retry_huge_def eval_header eval_parse)
  have "Release decimal_ops ''k'' h_retry_huge w_one =
      set_reset ''k'' (time_Add (time_Now w_one) (wrap64 (10000000000 * Second))) w_one"
    unfolding Release_known [OF w_one_k]
    by (simp add: h_retry_huge_def eval_header eval_parse Release_remaining_def)
  then have r: "map_option reset (buckets (limiter (Release decimal_ops ''k'' h_retry_huge w_one)) ''k'') =
     Some (time_Now w_one - 8446744073709551616)"
    by (simp add: reset_set_reset [OF w_one_k] eval_time)
  have "time_Now w_one - 8446744073709551616 \<noteq> time_Add (time_Now w_one) (10000000000 * Second)"
    by (simp add: eval_time)
  with w_one_k a r show ?thesis by blast
qed

text \<open>
  C4. On an existing bucket, when \<open>Retry-After\<close> is present and is not an integer, or
  \<open>Retry-After\<close> is absent and \<open>X-RateLimit-Reset\<close> is present and is not a float, a
  value of \<open>X-RateLimit-Remaining\<close> that parses is not stored: the bucket's remaining
  is what it was (as is the whole state).
\<close>

theorem Release_malformed_suppresses_Remaining:
  assumes "buckets (limiter w) path = Some b"
    and "(Header_Get h ''Retry-After'' \<noteq> [] \<and> Atoi (Header_Get h ''Retry-After'') = None) \<or>
         (Header_Get h ''Retry-After'' = [] \<and> Header_Get h ''X-RateLimit-Reset'' \<noteq> [] \<and>
          ParseFloat F (Header_Get h ''X-RateLimit-Reset'') = None)"
    and "ParseUint (Header_Get h ''X-RateLimit-Remaining'') = Some u"
  shows "map_option remaining (buckets (limiter (Release F path h w)) path) = Some (remaining b) \<and>
    Release F path h w = w"
  using assms(1,2) by (auto simp: Release_known [OF assms(1)])

theorem Release_malformed_suppresses_Remaining_witness:
  "buckets (limiter w_one) ''k'' = Some \<lparr>reset = zero_Time, remaining = 1\<rparr> \<and>
   Header_Get h_bad_retry ''Retry-After'' \<noteq> [] \<and>
   Atoi (Header_Get h_bad_retry ''Retry-After'') = None \<and>
   ParseUint (Header_Get h_bad_retry ''X-RateLimit-Remaining'') = Some 5 \<and>
   map_option remaining (buckets (limiter (Release decimal_ops ''k'' h_bad_retry w_one)) ''k'') = Some 1 \<and>
   Header_Get h_bad_reset ''Retry-After'' = [] \<and>
   Header_Get h_bad_reset ''X-RateLimit-Reset'' \<noteq> [] \<and>
   ParseFloat decimal_ops (Header_Get h_bad_reset ''X-RateLimit-Reset'') = None \<and>
   ParseUint (Header_Get h_bad_reset ''X-RateLimit-Remaining'') = Some 5 \<and>
   map_option remaining (buckets (limiter (Release decimal_ops ''k'' h_bad_reset w_one)) ''k'') = Some 1"
proof -
  have retry: "Header_Get h_bad_retry ''Retry-After'' \<noteq> [] \<and>
      Atoi (Header_Get h_bad_retry ''Retry-After'') = None"
    and u: "ParseUint (Header_Get h_bad_retry ''X-RateLimit-Remaining'') = Some 5"
    by (simp_all add: h_bad_retry_def eval_header eval_parse)
  have reset: "Header_Get h_bad_reset ''Retry-After'' = [] \<and>
      Header_Get h_bad_reset ''X-RateLimit-Reset'' \<noteq> [] \<and>
      ParseFloat decimal_ops (Header_Get h_bad_reset ''X-RateLimit-Reset'') = None"
    and u': "ParseUint (Header_Get h_bad_reset ''X-RateLimit-Remaining'') = Some 5"
    by (simp_all add: h_bad_reset_def eval_header eval_parse decimal_ops_def decimal_ParseFloat_def)
  from Release_malformed_suppresses_Remaining [OF w_one_k disjI1 [OF retry] u, where F = decimal_ops]
  have 1: "map_option remaining (buckets (limiter (Release decimal_ops ''k'' h_bad_retry w_one)) ''k'') = Some 1"
    by (auto simp: w_one_k)
  from Release_malformed_suppresses_Remaining [OF w_one_k disjI2 [OF reset] u']
  have 2: "map_option remaining (buckets (limiter (Release decimal_ops ''k'' h_bad_reset w_one)) ''k'') = Some 1"
    by (auto simp: w_one_k)
  from w_one_k retry u 1 reset u' 2 show ?thesis by blast
qed



subsection \<open>Sequences of calls\<close>

lemma limiter_elapse [simp]: "limiter (elapse d w) = limiter w"
  by (simp add: elapse_def)

lemma slept_elapse [simp]: "slept (elapse d w) = slept w"
  by (simp add: elapse_def)

lemma ParseUint_5: "ParseUint ''5'' = Some 5"
  by (simp add: eval_parse)

lemma slept_Release_remaining [simp]: "slept (Release_remaining path r w) = slept w"
  by (simp add: Release_remaining_def split: option.split)

lemma slept_set_reset [simp]: "slept (set_reset path t w) = slept w"
  by (simp add: set_reset_def split: option.split)

lemma slept_set_global [simp]: "slept (set_global t w) = slept w"
  by (simp add: set_global_def)

lemma slept_Release [simp]: "slept (Release F path h w) = slept w"
proof (cases "buckets (limiter w) path")
  case None
  then show ?thesis by (simp add: Release_unknown)
next
  case (Some b)
  show ?thesis
    by (simp add: Release_known [OF Some] split: option.split)
qed

text \<open>
  C6. From a bucket with remaining 1: \<open>Acquire\<close> on its key returns and leaves
  remaining 0; after any time, \<open>Release\<close> on the key with
  \<open>X-RateLimit-Remaining: 5\<close> and neither \<open>Retry-After\<close> nor \<open>X-RateLimit-Reset\<close>
  leaves remaining 5; after any time, the next \<open>Acquire\<close> on the key returns, adds to
  the log at most the wait for the global cool-down, so no wait for an exhausted bucket,
  and leaves remaining 4.
\<close>

theorem Acquire_Release_Acquire:
  assumes "buckets (limiter w) key = Some b" and "remaining b = 1"
    and "Header_Get h ''X-RateLimit-Remaining'' = ''5''"
    and "Header_Get h ''Retry-After'' = []"
    and "Header_Get h ''X-RateLimit-Reset'' = []"
  shows "case Acquire key w of
      Inl e \<Rightarrow> False
    | Inr w1 \<Rightarrow>
        map_option remaining (buckets (limiter w1) key) = Some 0 \<and>
        map_option remaining (buckets (limiter (Release F key h (elapse da w1))) key) = Some 5 \<and>
        (case Acquire key (elapse db (Release F key h (elapse da w1))) of
           Inl e \<Rightarrow> False
         | Inr w3 \<Rightarrow>
             slept w3 = slept w1 @ global_wait (elapse db (Release F key h (elapse da w1))) \<and>
             bucket_waits w3 = bucket_waits w1 \<and>
             map_option remaining (buckets (limiter w3) key) = Some 4)"
proof -
  from Acquire_found [OF assms(1)] obtain w1 where
    a1: "Acquire key w = Inr w1" and
    b1: "buckets (limiter w1) = (buckets (limiter w))(key \<mapsto> b\<lparr>remaining := 0\<rparr>)"
    using assms(2) by auto
  let ?w1 = "elapse da w1"
  have k0: "buckets (limiter w1) key = Some (b\<lparr>remaining := 0\<rparr>)"
    by (simp add: b1)
  then have k1: "buckets (limiter ?w1) key = Some (b\<lparr>remaining := 0\<rparr>)"
    by simp
  have r: "Release F key h ?w1 = set_remaining key 5 ?w1"
    by (simp add: Release_known [OF k1] assms(3,4,5) Release_remaining_def ParseUint_5)
  let ?w2 = "elapse db (Release F key h ?w1)"
  have k2: "buckets (limiter ?w2) key = Some (b\<lparr>remaining := 5\<rparr>)"
    by (simp add: r buckets_set_remaining k0)
  from Acquire_found [OF k2] obtain w3 where
    a3: "Acquire key ?w2 = Inr w3" and
    b3: "buckets (limiter w3) = (buckets (limiter ?w2))(key \<mapsto> b\<lparr>remaining := 4\<rparr>)" and
    s3: "slept w3 = slept ?w2 @ global_wait ?w2"
    by auto
  have g: "map snd (filter (\<lambda>e. fst e = BucketWait) (global_wait ?w2)) = []"
    by (simp add: global_wait_def)
  have bw: "bucket_waits w3 = bucket_waits w1"
    by (simp add: bucket_waits_def s3 g)
  have c1: "map_option remaining (buckets (limiter w1) key) = Some 0"
    by (simp add: k0)
  have c2: "map_option remaining (buckets (limiter (Release F key h ?w1)) key) = Some 5"
    by (simp add: r buckets_set_remaining k0)
  have c3: "map_option remaining (buckets (limiter w3) key) = Some 4"
    by (simp add: b3)
  have s: "slept w3 = slept w1 @ global_wait ?w2"
    by (simp add: s3)
  from bw c1 c2 c3 s show ?thesis
    by (simp add: a1 a3)
qed


theorem Acquire_Release_Acquire_witness:
  "buckets (limiter w_one) ''k'' = Some \<lparr>reset = zero_Time, remaining = 1\<rparr> \<and>
   Header_Get h_remaining5 ''X-RateLimit-Remaining'' = ''5'' \<and>
   Header_Get h_remaining5 ''Retry-After'' = [] \<and>
   Header_Get h_remaining5 ''X-RateLimit-Reset'' = [] \<and>
   (case Acquire ''k'' w_one of
      Inl e \<Rightarrow> False
    | Inr w1 \<Rightarrow>
        map_option remaining (buckets (limiter w1) ''k'') = Some 0 \<and>
        map_option remaining
          (buckets (limiter (Release decimal_ops ''k'' h_remaining5 (elapse 1000000 w1))) ''k'') = Some 5 \<and>
        (case Acquire ''k'' (elapse 1000000 (Release decimal_ops ''k'' h_remaining5 (elapse 1000000 w1))) of
           Inl e \<Rightarrow> False
         | Inr w3 \<Rightarrow>
             slept w3 =
               slept w1 @
               global_wait (elapse 1000000 (Release decimal_ops ''k'' h_remaining5 (elapse 1000000 w1))) \<and>
             bucket_waits w3 = bucket_waits w1 \<and>
             map_option remaining (buckets (limiter w3) ''k'') = Some 4))"
proof -
  have h: "Header_Get h_remaining5 ''X-RateLimit-Remaining'' = ''5''"
    "Header_Get h_remaining5 ''Retry-After'' = []"
    "Header_Get h_remaining5 ''X-RateLimit-Reset'' = []"
    by (simp_all add: h_remaining5_def eval_header)
  have one: "remaining \<lparr>reset = zero_Time, remaining = 1\<rparr> = 1"
    by simp
  note t = Acquire_Release_Acquire [OF w_one_k one h, where F = decimal_ops and da = 1000000
      and db = 1000000]
  from w_one_k h t show ?thesis
    by blast
qed














end
